theory Spec2Isabelle
  imports Complex_Main
begin

section \<open>JavaScript values\<close>

text \<open>
  A property of a JavaScript object is absent (\<open>undefined\<close>), \<open>null\<close> or a value.
  A destructuring default (\<^verbatim>\<open>const { boxPadding = 20 } = template\<close>) replaces
  \<open>undefined\<close> only; \<open>null\<close> stays \<open>null\<close> and counts as 0 in arithmetic and as
  false in a condition.
\<close>

datatype 'a js = Undefined | Null | Val 'a

text \<open>A thrown \<^verbatim>\<open>Error\<close>, identified by its message.\<close>

type_synonym exn = string

text \<open>The \<^verbatim>\<open>{ success, data | error }\<close> objects the services return.\<close>

datatype 'a result = Success 'a | Failure string

fun dflt :: "'a \<Rightarrow> 'a js \<Rightarrow> 'a option" where
  "dflt d Undefined = Some d"
| "dflt d Null = None"
| "dflt d (Val v) = Some v"

fun num :: "int option \<Rightarrow> int" where
  "num None = 0"
| "num (Some v) = v"

fun truthy_bool :: "bool option \<Rightarrow> bool" where
  "truthy_bool None = False"
| "truthy_bool (Some b) = b"

fun truthy_int :: "int option \<Rightarrow> bool" where
  "truthy_int None = False"
| "truthy_int (Some v) = (v \<noteq> 0)"

fun truthy_real :: "real option \<Rightarrow> bool" where
  "truthy_real None = False"
| "truthy_real (Some v) = (v \<noteq> 0)"

fun truthy_str :: "string option \<Rightarrow> bool" where
  "truthy_str None = False"
| "truthy_str (Some s) = (s \<noteq> [])"

section \<open>Templates\<close>

text \<open>
  A row of the \<open>templates\<close> table, as the persistent store returns it. A nullable column
  is an \<open>option\<close> (\<open>None\<close> is \<open>null\<close>). The box columns are read by \<open>applyBox\<close>
  through destructuring defaults, and \<open>boxShadowOpacity\<close> is no column of the table, so
  these fields can also be absent.
\<close>

record template =
  template_id :: string
  template_name :: string
  width :: int
  height :: int
  quality :: int
  format :: string
  fit :: string
  cropX :: "int option"
  cropY :: "int option"
  cropWidth :: "int option"
  cropHeight :: "int option"
  brightness :: "real option"
  contrast :: "real option"
  saturation :: "real option"
  hue :: "real option"
  blur :: "real option"
  sharpen :: "real option"
  watermarkEnabled :: bool
  watermarkText :: "string option"
  watermarkPosition :: "string option"
  watermarkOpacity :: "real option"
  watermarkSize :: "int option"
  backgroundColor :: "string option"
  progressive :: bool
  optimizeScans :: bool
  stripMetadata :: bool
  isActive :: bool
  isDefault :: bool
  boxEnabled :: bool
  boxColor :: "string js"
  boxPadding :: "int js"
  boxBorderWidth :: "int js"
  boxBorderColor :: "string js"
  boxBorderRadius :: "int js"
  boxShadowEnabled :: "bool js"
  boxShadowBlur :: "int js"
  boxShadowOffsetX :: "int js"
  boxShadowOffsetY :: "int js"
  boxShadowOpacity :: "real js"
  boxShadowColor :: "string js"

section \<open>The image library\<close>

text \<open>
  An image of the library (sharp) is an input together with the operations queued on it.
  Nothing is rendered before \<open>toBuffer\<close> or \<open>toFile\<close> runs the queue. The two vector
  overlays the stages build are kept by their attribute values instead of their text.
\<close>

type_synonym bytes = "nat list"

record image_metadata =
  md_width :: int
  md_height :: int
  md_format :: string

record shadow_filter =
  dx :: "int option"
  dy :: "int option"
  stdDeviation :: real
  flood_color :: "string option"
  flood_opacity :: "real option"

record box_svg =
  svg_width :: int
  svg_height :: int
  rect_x :: int
  rect_y :: int
  rect_width :: int
  rect_height :: int
  rect_fill :: "string option"
  rect_stroke :: "string option"
  rect_stroke_width :: "int option"
  rect_radius :: "int option"
  rect_shadow :: "shadow_filter option"

record text_svg =
  text_svg_width :: int
  text_svg_height :: int
  text_x :: real
  text_y :: real
  font_size :: real
  fill_opacity :: real
  text_anchor :: string
  dominant_baseline :: string
  text_content :: string

record resize_options =
  resize_width :: int
  resize_height :: int
  resize_fit :: string
  withoutEnlargement :: bool
  resize_background :: "string option"

record modulate_options =
  mod_brightness :: "real option"
  mod_saturation :: "real option"
  mod_hue :: "real option"

datatype sharp_input = FromFile string | FromBoxSvg box_svg

datatype sharp_op =
    Extract int int int int
  | Resize resize_options
  | Modulate modulate_options
  | Linear real real
  | Blur real
  | Sharpen real
  | CompositeImage bytes int int
  | CompositeText text_svg
  | WithMetadata
  | Jpeg int bool "bool option" "bool option"
  | Png int bool int bool
  | Webp int int
  | Avif int int

datatype sharp_image = Sharp (input: sharp_input) (ops: "sharp_op list")

text \<open>
  What the library and the file system answer. \<open>validate\<close> is the parameter check a method
  of the library makes when it is called (the error it throws, if any); the other fields
  are the asynchronous calls, which run the queue.
\<close>

record sharp_env =
  validate :: "sharp_op \<Rightarrow> exn option"
  metadata :: "sharp_image \<Rightarrow> exn + image_metadata"
  toBuffer :: "sharp_image \<Rightarrow> exn + bytes"
  toFile :: "sharp_image \<Rightarrow> string \<Rightarrow> exn + unit"
  written_metadata :: "sharp_image \<Rightarrow> string \<Rightarrow> exn + image_metadata"
  stat_size :: "sharp_image \<Rightarrow> string \<Rightarrow> exn + nat"

text \<open>Calling a method of the library on an image: it throws, or queues the operation.\<close>

definition call :: "sharp_env \<Rightarrow> sharp_op \<Rightarrow> sharp_image \<Rightarrow> exn + sharp_image" where
  "call env op img =
     (case validate env op of
        Some e \<Rightarrow> Inl e
      | None \<Rightarrow> Inr (Sharp (input img) (ops img @ [op])))"

section \<open>ImageProcessingService: the stages\<close>

text \<open>\<open>getSharpFit\<close>: the five fit modes map to themselves, and any other name a template
  can carry falls back to \<open>cover\<close>.\<close>

definition getSharpFit :: "string \<Rightarrow> string" where
  "getSharpFit templateFit =
     (if templateFit \<in> set [''cover'', ''contain'', ''fill'', ''inside'', ''outside'']
      then templateFit else ''cover'')"

text \<open>\<open>applyDimensions\<close>: the manual crop first, when all four of its fields are set, then
  the resize. The function compares the rectangle with nothing: it queues the extract.\<close>

definition applyDimensions ::
  "sharp_env \<Rightarrow> sharp_image \<Rightarrow> template \<Rightarrow> image_metadata \<Rightarrow> exn + sharp_image" where
  "applyDimensions env img t md =
     (case (if cropX t \<noteq> None \<and> cropY t \<noteq> None \<and> truthy_int (cropWidth t)
                \<and> truthy_int (cropHeight t)
            then call env (Extract (num (cropX t)) (num (cropY t))
                             (num (cropWidth t)) (num (cropHeight t))) img
            else Inr img) of
        Inl e \<Rightarrow> Inl e
      | Inr image1 \<Rightarrow>
          call env (Resize \<lparr>resize_width = width t, resize_height = height t,
                            resize_fit = getSharpFit (fit t), withoutEnlargement = False,
                            resize_background =
                              (if truthy_str (backgroundColor t) then backgroundColor t
                               else None)\<rparr>) image1)"

text \<open>\<open>applyFilters\<close>: modulate, linear, blur, sharpen, each under its own condition.\<close>

definition applyFilters :: "sharp_env \<Rightarrow> sharp_image \<Rightarrow> template \<Rightarrow> exn + sharp_image" where
  "applyFilters env img t =
     (let modulateOptions =
            \<lparr>mod_brightness = map_option (\<lambda>v. 1 + v / 100) (brightness t),
             mod_saturation = map_option (\<lambda>v. 1 + v / 100) (saturation t),
             mod_hue = hue t\<rparr>
      in case (if brightness t \<noteq> None \<or> saturation t \<noteq> None \<or> hue t \<noteq> None
               then call env (Modulate modulateOptions) img else Inr img) of
           Inl e \<Rightarrow> Inl e
         | Inr image1 \<Rightarrow>
        (case (case contrast t of
                 None \<Rightarrow> Inr image1
               | Some c \<Rightarrow>
                   (let a = 1 + c / 100; b = 128 * (1 - a)
                    in call env (Linear a b) image1)) of
           Inl e \<Rightarrow> Inl e
         | Inr image2 \<Rightarrow>
        (case (case blur t of
                 None \<Rightarrow> Inr image2
               | Some s \<Rightarrow> if s > 0 then call env (Blur s) image2 else Inr image2) of
           Inl e \<Rightarrow> Inl e
         | Inr image3 \<Rightarrow>
        (case sharpen t of
           None \<Rightarrow> Inr image3
         | Some s \<Rightarrow> if s > 0 then call env (Sharpen s) image3 else Inr image3))))"



record box_options =
  o_width :: int
  o_height :: int
  o_boxWidth :: int
  o_boxHeight :: int
  o_boxColor :: "string option"
  o_boxBorderWidth :: "int option"
  o_boxBorderColor :: "string option"
  o_boxBorderRadius :: "int option"
  o_boxShadowEnabled :: "bool option"
  o_boxShadowBlur :: "int option"
  o_boxShadowOffsetX :: "int option"
  o_boxShadowOffsetY :: "int option"
  o_boxShadowOpacity :: "real option"
  o_boxShadowColor :: "string option"
  o_shadowOffset :: int

text \<open>\<open>createBoxSvg\<close>: the attributes of the \<open>svg\<close>, \<open>rect\<close> and \<open>feDropShadow\<close>
  elements of the text it builds.\<close>

definition createBoxSvg :: "box_options \<Rightarrow> box_svg" where
  "createBoxSvg options =
     \<lparr>svg_width = o_width options,
      svg_height = o_height options,
      rect_x = o_shadowOffset options,
      rect_y = o_shadowOffset options,
      rect_width = o_boxWidth options,
      rect_height = o_boxHeight options,
      rect_fill = o_boxColor options,
      rect_stroke = o_boxBorderColor options,
      rect_stroke_width = o_boxBorderWidth options,
      rect_radius = o_boxBorderRadius options,
      rect_shadow =
        (if truthy_bool (o_boxShadowEnabled options)
         then Some \<lparr>dx = o_boxShadowOffsetX options,
                    dy = o_boxShadowOffsetY options,
                    stdDeviation = real_of_int (num (o_boxShadowBlur options)) / 2,
                    flood_color = o_boxShadowColor options,
                    flood_opacity = o_boxShadowOpacity options\<rparr>
         else None)\<rparr>"

text \<open>The body of the \<open>try\<close> block of \<open>applyBox\<close>.\<close>

definition applyBox_try :: "sharp_env \<Rightarrow> sharp_image \<Rightarrow> template \<Rightarrow> exn + sharp_image" where
  "applyBox_try env img t =
     (case metadata env img of
        Inl e \<Rightarrow> Inl e
      | Inr md \<Rightarrow>
          (let boxColor' = dflt ''#ffffff'' (boxColor t);
               boxPadding' = dflt 20 (boxPadding t);
               boxBorderWidth' = dflt 0 (boxBorderWidth t);
               boxBorderColor' = dflt ''#000000'' (boxBorderColor t);
               boxBorderRadius' = dflt 0 (boxBorderRadius t);
               boxShadowEnabled' = dflt False (boxShadowEnabled t);
               boxShadowBlur' = dflt 10 (boxShadowBlur t);
               boxShadowOffsetX' = dflt 5 (boxShadowOffsetX t);
               boxShadowOffsetY' = dflt 5 (boxShadowOffsetY t);
               boxShadowOpacity' = dflt (3 / 10) (boxShadowOpacity t);
               boxShadowColor' = dflt ''#000000'' (boxShadowColor t);
               totalPadding = num boxPadding' * 2;
               totalBorder = num boxBorderWidth' * 2;
               shadowOffset =
                 (if truthy_bool boxShadowEnabled'
                  then max \<bar>num boxShadowOffsetX'\<bar> \<bar>num boxShadowOffsetY'\<bar>
                         + num boxShadowBlur'
                  else 0);
               boxWidth = md_width md + totalPadding + totalBorder;
               boxHeight = md_height md + totalPadding + totalBorder;
               canvasWidth = boxWidth + shadowOffset * 2;
               canvasHeight = boxHeight + shadowOffset * 2
           in case toBuffer env img of
                Inl e \<Rightarrow> Inl e
              | Inr imageBuffer \<Rightarrow>
                  (let boxSvg = createBoxSvg
                         \<lparr>o_width = canvasWidth, o_height = canvasHeight,
                          o_boxWidth = boxWidth, o_boxHeight = boxHeight,
                          o_boxColor = boxColor',
                          o_boxBorderWidth = boxBorderWidth',
                          o_boxBorderColor = boxBorderColor',
                          o_boxBorderRadius = boxBorderRadius',
                          o_boxShadowEnabled = boxShadowEnabled',
                          o_boxShadowBlur = boxShadowBlur',
                          o_boxShadowOffsetX = boxShadowOffsetX',
                          o_boxShadowOffsetY = boxShadowOffsetY',
                          o_boxShadowOpacity = boxShadowOpacity',
                          o_boxShadowColor = boxShadowColor',
                          o_shadowOffset = shadowOffset\<rparr>;
                       imageLeft = shadowOffset + num boxBorderWidth' + num boxPadding';
                       imageTop = shadowOffset + num boxBorderWidth' + num boxPadding'
                   in call env (CompositeImage imageBuffer imageLeft imageTop)
                        (Sharp (FromBoxSvg boxSvg) []))))"

text \<open>\<open>applyBox\<close>: nothing when the box is off; otherwise the \<open>try\<close> block, and the input
  image when anything in it throws.\<close>

definition applyBox :: "sharp_env \<Rightarrow> sharp_image \<Rightarrow> template \<Rightarrow> exn + sharp_image" where
  "applyBox env img t =
     (if \<not> boxEnabled t then Inr img
      else case applyBox_try env img t of
             Inl e \<Rightarrow> Inr img
           | Inr result \<Rightarrow> Inr result)"

text \<open>\<open>getWatermarkPosition\<close>: x, y, text anchor and baseline for the five anchors; any
  other name falls back to \<open>bottom-right\<close>.\<close>

definition getWatermarkPosition ::
  "string \<Rightarrow> int \<Rightarrow> int \<Rightarrow> real \<Rightarrow> real \<times> real \<times> string \<times> string" where
  "getWatermarkPosition position w h fontSize =
     (let margin = fontSize * (1 / 2);
          bottom_right = (real_of_int w - margin, real_of_int h - margin,
                          ''end'', ''alphabetic'')
      in if position = ''top-left'' then (margin, fontSize + margin, ''start'', ''hanging'')
         else if position = ''top-right''
           then (real_of_int w - margin, fontSize + margin, ''end'', ''hanging'')
         else if position = ''bottom-left''
           then (margin, real_of_int h - margin, ''start'', ''alphabetic'')
         else if position = ''bottom-right'' then bottom_right
         else if position = ''center''
           then (real_of_int w / 2, real_of_int h / 2, ''middle'', ''central'')
         else bottom_right)"

text \<open>The body of the \<open>try\<close> block of \<open>applyWatermark\<close>.\<close>

definition applyWatermark_try ::
  "sharp_env \<Rightarrow> sharp_image \<Rightarrow> template \<Rightarrow> exn + sharp_image" where
  "applyWatermark_try env img t =
     (case metadata env img of
        Inl e \<Rightarrow> Inl e
      | Inr md \<Rightarrow>
          (let fontSize =
                 (if truthy_int (watermarkSize t) then real_of_int (num (watermarkSize t))
                  else real_of_int (max (md_width md) (md_height md)) * (5 / 100));
               opacity =
                 (case watermarkOpacity t of
                    Some v \<Rightarrow> if v \<noteq> 0 then v else 1 / 2
                  | None \<Rightarrow> 1 / 2);
               position = getWatermarkPosition
                 (case watermarkPosition t of
                    Some p \<Rightarrow> if p \<noteq> [] then p else ''bottom-right''
                  | None \<Rightarrow> ''bottom-right'')
                 (md_width md) (md_height md) fontSize;
               svgText =
                 \<lparr>text_svg_width = md_width md, text_svg_height = md_height md,
                  text_x = fst position, text_y = fst (snd position),
                  font_size = fontSize, fill_opacity = opacity,
                  text_anchor = fst (snd (snd position)),
                  dominant_baseline = snd (snd (snd position)),
                  text_content = (case watermarkText t of Some s \<Rightarrow> s | None \<Rightarrow> [])\<rparr>
           in call env (CompositeText svgText) img))"

text \<open>\<open>applyWatermark\<close>: nothing when the watermark is off or its text is empty; otherwise
  the \<open>try\<close> block, and the image as it was when anything in it throws.\<close>

definition applyWatermark ::
  "sharp_env \<Rightarrow> sharp_image \<Rightarrow> template \<Rightarrow> exn + sharp_image" where
  "applyWatermark env img t =
     (if \<not> watermarkEnabled t \<or> \<not> truthy_str (watermarkText t) then Inr img
      else case applyWatermark_try env img t of
             Inl e \<Rightarrow> Inr img
           | Inr image1 \<Rightarrow> Inr image1)"

text \<open>\<open>toLowerCase\<close>, on the letters A to Z, which is all a format name needs.\<close>

definition toLowerCase :: "string \<Rightarrow> string" where
  "toLowerCase s =
     map (\<lambda>c. case map_of (zip ''ABCDEFGHIJKLMNOPQRSTUVWXYZ''
                                 ''abcdefghijklmnopqrstuvwxyz'') c of
                 Some d \<Rightarrow> d
               | None \<Rightarrow> c) s"

text \<open>\<open>applyOutputOptions\<close>: the metadata policy, then the encoder of the format.\<close>

definition applyOutputOptions ::
  "sharp_env \<Rightarrow> sharp_image \<Rightarrow> template \<Rightarrow> exn + sharp_image" where
  "applyOutputOptions env img t =
     (case (if stripMetadata t then call env WithMetadata img else Inr img) of
        Inl e \<Rightarrow> Inl e
      | Inr image1 \<Rightarrow>
          (let f = toLowerCase (format t)
           in if f = ''jpeg'' \<or> f = ''jpg''
                then call env (Jpeg (quality t) (progressive t)
                                 (Some (optimizeScans t)) (Some True)) image1
              else if f = ''png''
                then call env (Png (quality t) (progressive t) 9 True) image1
              else if f = ''webp'' then call env (Webp (quality t) 6) image1
              else if f = ''avif'' then call env (Avif (quality t) 4) image1
              else call env (Jpeg (quality t) (progressive t) None None) image1))"

section \<open>ImageProcessingService.processImage\<close>

record processing_data =
  data_originalWidth :: int
  data_originalHeight :: int
  data_processedWidth :: int
  data_processedHeight :: int
  data_format :: string
  data_size :: nat

text \<open>
  The first half of the \<open>try\<close> block of \<open>processImage\<close>: the image is opened, its
  metadata read, and the stages applied. The source calls \<open>applyDimensions\<close> alone; its
  calls of \<open>applyFilters\<close>, \<open>applyBox\<close>, \<open>applyWatermark\<close> and \<open>applyOutputOptions\<close>
  are commented out.
\<close>

definition processImage_pipeline ::
  "sharp_env \<Rightarrow> string \<Rightarrow> template \<Rightarrow> exn + image_metadata \<times> sharp_image" where
  "processImage_pipeline env inputPath t =
     (let img = Sharp (FromFile inputPath) []
      in case metadata env img of
           Inl e \<Rightarrow> Inl e
         | Inr md \<Rightarrow>
             (case applyDimensions env img t md of
                Inl e \<Rightarrow> Inl e
              | Inr image1 \<Rightarrow> Inr (md, image1)))"

text \<open>The whole \<open>try\<close> block: the pipeline, then the file is written and read back.\<close>

definition processImage_try ::
  "sharp_env \<Rightarrow> string \<Rightarrow> template \<Rightarrow> string \<Rightarrow> exn + processing_data" where
  "processImage_try env inputPath t outputPath =
     (case processImage_pipeline env inputPath t of
        Inl e \<Rightarrow> Inl e
      | Inr (md, img) \<Rightarrow>
     (case toFile env img outputPath of
        Inl e \<Rightarrow> Inl e
      | Inr u \<Rightarrow>
     (case written_metadata env img outputPath of
        Inl e \<Rightarrow> Inl e
      | Inr processedMetadata \<Rightarrow>
     (case stat_size env img outputPath of
        Inl e \<Rightarrow> Inl e
      | Inr sz \<Rightarrow>
          Inr \<lparr>data_originalWidth = md_width md,
               data_originalHeight = md_height md,
               data_processedWidth = md_width processedMetadata,
               data_processedHeight = md_height processedMetadata,
               data_format = md_format processedMetadata,
               data_size = sz\<rparr>))))"

text \<open>
  \<open>processImage\<close>: what the call gives its caller, \<open>Inl\<close> for an exception that leaves the
  function and \<open>Inr\<close> for a returned object. The \<open>catch\<close> turns every exception of the
  \<open>try\<close> block into \<^verbatim>\<open>{ success: false, error: error.message }\<close>.
\<close>

definition processImage ::
  "sharp_env \<Rightarrow> string \<Rightarrow> template \<Rightarrow> string \<Rightarrow> exn + processing_data result" where
  "processImage env inputPath t outputPath =
     (case processImage_try env inputPath t outputPath of
        Inl e \<Rightarrow> Inr (Failure e)
      | Inr d \<Rightarrow> Inr (Success d))"

text \<open>
  The pipeline the specification describes, for comparison with \<open>processImage_pipeline\<close>:
  Geometry, Tone, Frame, Watermark and Encode in this order, which is what the source
  would run with its four commented calls restored.
\<close>

definition spec_five_stage_pipeline ::
  "sharp_env \<Rightarrow> string \<Rightarrow> template \<Rightarrow> exn + image_metadata \<times> sharp_image" where
  "spec_five_stage_pipeline env inputPath t =
     (let img = Sharp (FromFile inputPath) []
      in case metadata env img of
           Inl e \<Rightarrow> Inl e
         | Inr md \<Rightarrow>
        (case applyDimensions env img t md of
           Inl e \<Rightarrow> Inl e
         | Inr image1 \<Rightarrow>
        (case applyFilters env image1 t of
           Inl e \<Rightarrow> Inl e
         | Inr image2 \<Rightarrow>
        (case applyBox env image2 t of
           Inl e \<Rightarrow> Inl e
         | Inr image3 \<Rightarrow>
        (case applyWatermark env image3 t of
           Inl e \<Rightarrow> Inl e
         | Inr image4 \<Rightarrow>
        (case applyOutputOptions env image4 t of
           Inl e \<Rightarrow> Inl e
         | Inr image5 \<Rightarrow> Inr (md, image5)))))))"

section \<open>The persistent store\<close>

datatype upload_status = Pending | Processing | Completed | Failed

text \<open>A row of the \<open>uploads\<close> table.\<close>

record upload =
  upload_id :: string
  originalName :: string
  fileName :: string
  filePath :: string
  mimeType :: string
  fileSize :: nat
  processedPath :: "string option"
  cloudinaryId :: "string option"
  cloudinaryUrl :: "string option"
  originalWidth :: "int option"
  originalHeight :: "int option"
  processedWidth :: "int option"
  processedHeight :: "int option"
  templateId :: "string option"
  status :: upload_status
  errorMessage :: "string option"

text \<open>The two tables. Templates are found by their id, the primary key.\<close>

record database =
  template_rows :: "string \<rightharpoonup> template"
  upload_rows :: "upload list"

text \<open>The store's error for an update or delete of a row that does not exist.\<close>

definition P2025 :: exn where
  "P2025 = ''An operation failed because it depends on one or more records that were required but not found.''"

section \<open>TemplateService\<close>

definition getTemplateById :: "(string \<rightharpoonup> template) \<Rightarrow> string \<Rightarrow> template result" where
  "getTemplateById rows i =
     (case rows i of
        None \<Rightarrow> Failure ''Template not found''
      | Some t \<Rightarrow> Success t)"

text \<open>A number in a template literal: its decimal digits.\<close>

fun show_nat :: "nat \<Rightarrow> string" where
  "show_nat n =
     (if n < 10 then [''0123456789'' ! n]
      else show_nat (n div 10) @ [''0123456789'' ! (n mod 10)])"

declare show_nat.simps [simp del]

text \<open>\<open>deleteTemplate\<close>: the uploads of the template are counted first.\<close>

definition deleteTemplate :: "database \<Rightarrow> string \<Rightarrow> database \<times> string result" where
  "deleteTemplate db i =
     (let uploadsCount = length (filter (\<lambda>u. templateId u = Some i) (upload_rows db))
      in if uploadsCount > 0
         then (db, Failure (''Cannot delete template. It has '' @ show_nat uploadsCount
                              @ '' associated uploads.''))
         else (case template_rows db i of
                 None \<Rightarrow> (db, Failure P2025)
               | Some t \<Rightarrow>
                   (db\<lparr>template_rows := (template_rows db)(i := None)\<rparr>,
                    Success ''Template deleted successfully'')))"

text \<open>
  \<open>setDefaultTemplate\<close>: \<open>updateMany\<close> clears the flag of every row that has it, then
  \<open>update\<close> sets the two flags of the row with the given id, and throws when there is no
  such row. The two writes are not in a transaction: the first stays when the second
  fails.
\<close>

definition setDefaultTemplate :: "database \<Rightarrow> string \<Rightarrow> database \<times> template result" where
  "setDefaultTemplate db i =
     (let rows1 = (\<lambda>k. map_option (\<lambda>t. if isDefault t then t\<lparr>isDefault := False\<rparr> else t)
                          (template_rows db k));
          db1 = db\<lparr>template_rows := rows1\<rparr>
      in case rows1 i of
           None \<Rightarrow> (db1, Failure P2025)
         | Some t \<Rightarrow>
             (let t' = t\<lparr>isDefault := True, isActive := True\<rparr>
              in (db1\<lparr>template_rows := rows1(i \<mapsto> t')\<rparr>, Success t')))"

section \<open>CloudinaryService\<close>

record cloudinary_options =
  opt_folder :: string
  opt_quality :: string
  opt_width :: "string option"
  opt_height :: "string option"
  opt_crop :: "string option"

record uploader_options =
  up_folder :: string
  up_resource_type :: string
  up_quality :: string
  up_fetch_format :: "string option"
  up_width :: "string option"
  up_height :: "string option"
  up_crop :: "string option"

record cloudinary_data =
  public_id :: string
  url :: string

text \<open>\<open>uploadImage\<close> and \<open>uploadVideo\<close>: the caller's options over the defaults, the
  remote upload, and every exception turned into \<^verbatim>\<open>{ success: false }\<close>. The argument
  \<open>upload\<close> is \<^verbatim>\<open>cloudinary.uploader.upload\<close>.\<close>

definition uploadImage ::
  "(string \<Rightarrow> uploader_options \<Rightarrow> exn + cloudinary_data)
     \<Rightarrow> string \<Rightarrow> cloudinary_options \<Rightarrow> cloudinary_data result" where
  "uploadImage upload localPath options =
     (case upload localPath
             \<lparr>up_folder = opt_folder options, up_resource_type = ''auto'',
              up_quality = opt_quality options, up_fetch_format = Some ''auto'',
              up_width = opt_width options, up_height = opt_height options,
              up_crop = opt_crop options\<rparr> of
        Inl e \<Rightarrow> Failure e
      | Inr d \<Rightarrow> Success d)"

definition uploadVideo ::
  "(string \<Rightarrow> uploader_options \<Rightarrow> exn + cloudinary_data)
     \<Rightarrow> string \<Rightarrow> cloudinary_options \<Rightarrow> cloudinary_data result" where
  "uploadVideo upload localPath options =
     (case upload localPath
             \<lparr>up_folder = opt_folder options, up_resource_type = ''video'',
              up_quality = opt_quality options, up_fetch_format = None,
              up_width = opt_width options, up_height = opt_height options,
              up_crop = opt_crop options\<rparr> of
        Inl e \<Rightarrow> Failure e
      | Inr d \<Rightarrow> Success d)"

section \<open>UploadController.uploadSingle\<close>

text \<open>The uploaded file of a request, and the fields of its body the handler reads. The
  numbers \<open>width\<close> and \<open>height\<close> of the body are carried as their text, before
  \<open>parseInt\<close>.\<close>

record uploaded_file =
  file_originalname :: string
  file_filename :: string
  file_path :: string
  file_mimetype :: string
  file_size :: nat

record request =
  req_file :: "uploaded_file option"
  body_templateId :: "string option"
  body_folder :: "string option"
  body_quality :: "string option"
  body_width :: "string option"
  body_height :: "string option"
  body_crop :: "string option"

text \<open>What the handler is given besides the request: the image library, the templates
  table, the id the store gives the new row, and the remote upload.\<close>

record upload_env =
  sharp :: sharp_env
  templates :: "string \<rightharpoonup> template"
  new_upload_id :: string
  uploader_upload :: "string \<Rightarrow> uploader_options \<Rightarrow> exn + cloudinary_data"

text \<open>
  What a request leaves behind: the Upload row of the request, every state of the row
  in the order written, the calls of the storage collaborator (video or image, path,
  options), and the local files deleted. Writes to the store succeed.
\<close>

record world =
  row :: "upload option"
  history :: "upload list"
  storage_calls :: "(bool \<times> string \<times> cloudinary_options) list"
  deleted_files :: "string list"

definition empty_world :: world where
  "empty_world = \<lparr>row = None, history = [], storage_calls = [], deleted_files = []\<rparr>"

datatype response =
    SuccessResponse nat string upload cloudinary_data "processing_data option"
      "template option"
  | ErrorResponse nat string "string option"

definition create_upload :: "upload \<Rightarrow> world \<Rightarrow> world" where
  "create_upload u w = w\<lparr>row := Some u, history := history w @ [u]\<rparr>"

definition update_upload :: "(upload \<Rightarrow> upload) \<Rightarrow> world \<Rightarrow> world" where
  "update_upload f w =
     (case row w of
        None \<Rightarrow> w
      | Some u \<Rightarrow> w\<lparr>row := Some (f u), history := history w @ [f u]\<rparr>)"

definition deleteFile :: "string \<Rightarrow> world \<Rightarrow> world" where
  "deleteFile p w = w\<lparr>deleted_files := deleted_files w @ [p]\<rparr>"

definition startsWith :: "string \<Rightarrow> string \<Rightarrow> bool" where
  "startsWith s prefix = (take (length prefix) s = prefix)"

definition processedDir :: string where
  "processedDir = ''processed''"

text \<open>Lines 41 to 47: the template of the request, when it names one.\<close>

definition load_template :: "upload_env \<Rightarrow> request \<Rightarrow> exn + template option" where
  "load_template env req =
     (case body_templateId req of
        None \<Rightarrow> Inr None
      | Some i \<Rightarrow>
          if i = [] then Inr None
          else (case getTemplateById (templates env) i of
                  Failure e \<Rightarrow> Inl (''Template not found: '' @ e)
                | Success t \<Rightarrow> Inr (Some t)))"

text \<open>The \<open>data\<close> of the four writes to the row: the row created (lines 28 to 38), the
  processed information (lines 79 to 88), the result of the storage collaborator (lines
  119 to 125) and the failure (lines 163 to 168).\<close>

definition new_upload :: "upload_env \<Rightarrow> request \<Rightarrow> uploaded_file \<Rightarrow> upload" where
  "new_upload env req file =
     \<lparr>upload_id = new_upload_id env,
      originalName = file_originalname file,
      fileName = file_filename file,
      filePath = file_path file,
      mimeType = file_mimetype file,
      fileSize = file_size file,
      processedPath = None, cloudinaryId = None, cloudinaryUrl = None,
      originalWidth = None, originalHeight = None,
      processedWidth = None, processedHeight = None,
      templateId = (if truthy_str (body_templateId req) then body_templateId req else None),
      status = Pending, errorMessage = None\<rparr>"

definition processed_info :: "string \<Rightarrow> processing_data \<Rightarrow> upload \<Rightarrow> upload" where
  "processed_info processedImagePath imageMetadata u =
     u\<lparr>processedPath := Some processedImagePath,
       originalWidth := Some (data_originalWidth imageMetadata),
       originalHeight := Some (data_originalHeight imageMetadata),
       processedWidth := Some (data_processedWidth imageMetadata),
       processedHeight := Some (data_processedHeight imageMetadata)\<rparr>"

definition cloudinary_info :: "cloudinary_data \<Rightarrow> upload \<Rightarrow> upload" where
  "cloudinary_info d u =
     u\<lparr>cloudinaryId := Some (public_id d), cloudinaryUrl := Some (url d),
       status := Completed\<rparr>"

definition failure_info :: "exn \<Rightarrow> upload \<Rightarrow> upload" where
  "failure_info e u = u\<lparr>status := Failed, errorMessage := Some e\<rparr>"

text \<open>Lines 52 to 89: the image is processed when there is a template and the file is an
  image. The result is the path of the processed file and its metadata.\<close>

definition process_step ::
  "upload_env \<Rightarrow> uploaded_file \<Rightarrow> upload \<Rightarrow> template option \<Rightarrow> world
     \<Rightarrow> world \<times> (exn + string option \<times> processing_data option)" where
  "process_step env file uploadRecord template w =
     (case template of
        None \<Rightarrow> (w, Inr (None, None))
      | Some t \<Rightarrow>
          if \<not> startsWith (file_mimetype file) ''image/'' then (w, Inr (None, None))
          else
            (let ext = (if format t = ''jpeg'' then ''jpg'' else format t);
                 processedImagePath =
                   processedDir @ ''/processed-'' @ upload_id uploadRecord @ ''.'' @ ext;
                 w1 = update_upload (\<lambda>u. u\<lparr>status := Processing\<rparr>) w
             in case processImage (sharp env) (file_path file) t processedImagePath of
                  Inl e \<Rightarrow> (w1, Inl e)
                | Inr (Failure e) \<Rightarrow> (w1, Inl (''Image processing failed: '' @ e))
                | Inr (Success imageMetadata) \<Rightarrow>
                    (update_upload (processed_info processedImagePath imageMetadata) w1,
                     Inr (Some processedImagePath, Some imageMetadata))))"

text \<open>Lines 91 to 112: the options of the storage call, the call, and the deletion of the
  local files. The result of the call comes with the new state.\<close>

definition store_step ::
  "upload_env \<Rightarrow> request \<Rightarrow> uploaded_file \<Rightarrow> string option \<Rightarrow> world
     \<Rightarrow> world \<times> cloudinary_data result" where
  "store_step env req file processedImagePath w =
     (let uploadPath = (case processedImagePath of Some p \<Rightarrow> p | None \<Rightarrow> file_path file);
          options =
            \<lparr>opt_folder =
               (case body_folder req of
                  Some f \<Rightarrow> if f \<noteq> [] then f else ''uploads''
                | None \<Rightarrow> ''uploads''),
             opt_quality =
               (case body_quality req of
                  Some q \<Rightarrow> if q \<noteq> [] then q else ''auto''
                | None \<Rightarrow> ''auto''),
             opt_width = (if truthy_str (body_width req) then body_width req else None),
             opt_height = (if truthy_str (body_height req) then body_height req else None),
             opt_crop = (if truthy_str (body_crop req) then body_crop req else None)\<rparr>;
          isVideo = startsWith (file_mimetype file) ''video/'';
          cloudinaryResult =
            (if isVideo then uploadVideo (uploader_upload env) uploadPath options
             else uploadImage (uploader_upload env) uploadPath options);
          w1 = w\<lparr>storage_calls := storage_calls w @ [(isVideo, uploadPath, options)]\<rparr>;
          w2 = deleteFile (file_path file) w1;
          w3 = (case processedImagePath of
                  Some p \<Rightarrow> deleteFile p w2
                | None \<Rightarrow> w2)
      in (w3, cloudinaryResult))"

text \<open>The \<open>try\<close> block after the check for a file: \<open>Inl\<close> is the exception thrown.
  The response is built after the last write; the model keeps the row, the storage
  result, the processing metadata and the template of it, and takes its construction
  not to throw.\<close>

definition uploadSingle_try ::
  "upload_env \<Rightarrow> request \<Rightarrow> uploaded_file \<Rightarrow> world \<Rightarrow> world \<times> (exn + response)" where
  "uploadSingle_try env req file w =
     (let uploadRecord = new_upload env req file;
          w1 = create_upload uploadRecord w
      in case load_template env req of
           Inl e \<Rightarrow> (w1, Inl e)
         | Inr template \<Rightarrow>
        (case process_step env file uploadRecord template w1 of
           (w2, Inl e) \<Rightarrow> (w2, Inl e)
         | (w2, Inr (processedImagePath, imageMetadata)) \<Rightarrow>
        (case store_step env req file processedImagePath w2 of
           (w3, Failure e) \<Rightarrow> (w3, Inl (''Cloudinary upload failed: '' @ e))
         | (w3, Success d) \<Rightarrow>
             (let w4 = update_upload (cloudinary_info d) w3
              in (w4, Inr (SuccessResponse 201 ''File uploaded and processed successfully''
                             (case row w4 of Some u \<Rightarrow> u | None \<Rightarrow> uploadRecord)
                             d imageMetadata template))))))"

text \<open>
  \<open>uploadSingle\<close>: without a file the request is refused before anything is written.
  The \<open>catch\<close> marks the row as failed, when there is one, deletes the uploaded file and
  answers with status 500.
\<close>

definition uploadSingle :: "upload_env \<Rightarrow> request \<Rightarrow> world \<Rightarrow> world \<times> response" where
  "uploadSingle env req w =
     (case req_file req of
        None \<Rightarrow> (w, ErrorResponse 400 ''No file uploaded'' None)
      | Some file \<Rightarrow>
          (case uploadSingle_try env req file w of
             (w1, Inr resp) \<Rightarrow> (w1, resp)
           | (w1, Inl e) \<Rightarrow>
               (let w2 = (if row w1 \<noteq> None then update_upload (failure_info e) w1 else w1);
                    w3 = (if file_path file \<noteq> [] then deleteFile (file_path file) w2
                          else w2)
                in (w3, ErrorResponse 500 ''Upload failed'' (Some e)))))"

section \<open>Properties of the upload lifecycle\<close>







text \<open>An extract that does not lie inside an image of \<open>w\<close> by \<open>h\<close> pixels.\<close>

fun bad_extract :: "int \<Rightarrow> int \<Rightarrow> sharp_op \<Rightarrow> bool" where
  "bad_extract w h (Extract l tp cw ch) =
     (l < 0 \<or> tp < 0 \<or> cw \<le> 0 \<or> ch \<le> 0 \<or> l + cw > w \<or> tp + ch > h)"
| "bad_extract w h other = False"

text \<open>The library refuses to run a queue whose extract does not lie inside the input
  image. This is a property of sharp, not of the code under study.\<close>

definition rejects_bad_extract :: "sharp_env \<Rightarrow> bool" where
  "rejects_bad_extract env =
     (\<forall>img outputPath md.
        metadata env (Sharp (input img) []) = Inr md
        \<and> list_ex (bad_extract (md_width md) (md_height md)) (ops img)
        \<longrightarrow> (\<exists>e. toFile env img outputPath = Inl e))"

section \<open>Example inputs\<close>

fun last_resize :: "sharp_op list \<Rightarrow> (int \<times> int) option" where
  "last_resize [] = None"
| "last_resize (Resize r # rest) =
     (case last_resize rest of
        None \<Rightarrow> Some (resize_width r, resize_height r)
      | Some d \<Rightarrow> Some d)"
| "last_resize (other # rest) = last_resize rest"

text \<open>
  An environment for the examples: the input is an image of \<open>w\<close> by \<open>h\<close> pixels, the
  library accepts every parameter, and it refuses to run a queue whose extract does not
  lie inside the input (\<open>extract_area: bad extract area\<close>), as sharp does.
\<close>

definition example_env :: "int \<Rightarrow> int \<Rightarrow> sharp_env" where
  "example_env w h =
     \<lparr>validate = (\<lambda>op. None),
      metadata = (\<lambda>img. Inr \<lparr>md_width = w, md_height = h, md_format = ''jpeg''\<rparr>),
      toBuffer = (\<lambda>img. Inr [255, 216, 255]),
      toFile = (\<lambda>img outputPath.
                  if list_ex (bad_extract w h) (ops img)
                  then Inl ''extract_area: bad extract area'' else Inr ()),
      written_metadata = (\<lambda>img outputPath.
                  case last_resize (ops img) of
                    Some (rw, rh) \<Rightarrow> Inr \<lparr>md_width = rw, md_height = rh, md_format = ''jpeg''\<rparr>
                  | None \<Rightarrow> Inr \<lparr>md_width = w, md_height = h, md_format = ''jpeg''\<rparr>),
      stat_size = (\<lambda>img outputPath. Inr 34567)\<rparr>"


text \<open>The seeded template "Social Media Square": a resize and nothing else.\<close>

definition plain_template :: template where
  "plain_template =
     \<lparr>template_id = ''tpl1'', template_name = ''Social Media Square'',
      width = 1080, height = 1080, quality = 85, format = ''jpeg'', fit = ''cover'',
      cropX = None, cropY = None, cropWidth = None, cropHeight = None,
      brightness = None, contrast = None, saturation = None, hue = None,
      blur = None, sharpen = None,
      watermarkEnabled = False, watermarkText = None, watermarkPosition = None,
      watermarkOpacity = None, watermarkSize = None, backgroundColor = None,
      progressive = True, optimizeScans = True, stripMetadata = True,
      isActive = True, isDefault = True,
      boxEnabled = False, boxColor = Null, boxPadding = Null, boxBorderWidth = Null,
      boxBorderColor = Null, boxBorderRadius = Null, boxShadowEnabled = Val False,
      boxShadowBlur = Null, boxShadowOffsetX = Null, boxShadowOffsetY = Null,
      boxShadowOpacity = Undefined, boxShadowColor = Null\<rparr>"

text \<open>The frame of the specification's scenario: padding 20, no border, a shadow of blur
  10 and offset (5, 5).\<close>

definition framed_template :: template where
  "framed_template =
     plain_template\<lparr>boxEnabled := True, boxPadding := Val 20, boxBorderWidth := Val 0,
       boxShadowEnabled := Val True, boxShadowBlur := Val 10,
       boxShadowOffsetX := Val 5, boxShadowOffsetY := Val 5\<rparr>"

text \<open>A template that asks for every stage: contrast, a frame, a watermark, PNG output.\<close>

definition decorated_template :: template where
  "decorated_template =
     framed_template\<lparr>contrast := Some 50, watermarkEnabled := True,
       watermarkText := Some ''demo'', format := ''png''\<rparr>"

text \<open>The crop of the specification's scenario, for an input of 800 by 600 pixels.\<close>

definition cropping_template :: template where
  "cropping_template =
     plain_template\<lparr>cropX := Some 100, cropY := Some 100,
       cropWidth := Some 5000, cropHeight := Some 5000\<rparr>"

text \<open>An image upload, and the collaborators of a request: the library on an input of
  \<open>w\<close> by \<open>h\<close> pixels, one template in the store, and a remote upload that succeeds.\<close>

definition example_file :: uploaded_file where
  "example_file =
     \<lparr>file_originalname = ''photo.jpg'', file_filename = ''file-1.jpg'',
      file_path = ''uploads/file-1.jpg'', file_mimetype = ''image/jpeg'',
      file_size = 204800\<rparr>"

definition example_request :: "string option \<Rightarrow> request" where
  "example_request tid =
     \<lparr>req_file = Some example_file, body_templateId = tid, body_folder = None,
      body_quality = None, body_width = None, body_height = None, body_crop = None\<rparr>"

definition example_upload_env :: "int \<Rightarrow> int \<Rightarrow> template \<Rightarrow> upload_env" where
  "example_upload_env w h t =
     \<lparr>sharp = example_env w h,
      templates = [''tpl1'' \<mapsto> t],
      new_upload_id = ''upl1'',
      uploader_upload =
        (\<lambda>p options. Inr \<lparr>public_id = ''uploads/abc'',
                            url = ''https://res.cloudinary.com/demo/uploads/abc.jpg''\<rparr>)\<rparr>"

text \<open>A store with two templates, the first of them the default, and one upload made
  with the second.\<close>

definition example_database :: database where
  "example_database =
     \<lparr>template_rows =
        [''tpl1'' \<mapsto> plain_template,
         ''tpl2'' \<mapsto> plain_template\<lparr>template_id := ''tpl2'',
                      template_name := ''YouTube Thumbnail'', width := 1280, height := 720,
                      isDefault := False\<rparr>],
      upload_rows =
        [\<lparr>upload_id = ''upl0'', originalName = ''a.jpg'', fileName = ''a-1.jpg'',
          filePath = ''uploads/a-1.jpg'', mimeType = ''image/jpeg'', fileSize = 1000,
          processedPath = None, cloudinaryId = Some ''uploads/a'',
          cloudinaryUrl = Some ''https://res.cloudinary.com/demo/uploads/a.jpg'',
          originalWidth = None, originalHeight = None, processedWidth = None,
          processedHeight = None, templateId = Some ''tpl2'', status = Completed,
          errorMessage = None\<rparr>]\<rparr>"

section \<open>Lemmas about the model\<close>


text \<open>What a write to the row and the storage step do to the state.\<close>

lemma update_upload_world:
  "row w = Some u \<Longrightarrow>
     row (update_upload f w) = Some (f u)
     \<and> history (update_upload f w) = history w @ [f u]
     \<and> storage_calls (update_upload f w) = storage_calls w"
  by (simp add: update_upload_def)







text \<open>A request whose image processing fails.\<close>

lemma uploadSingle_processing_failed:
  assumes f: "req_file req = Some file"
    and lt: "load_template env req = Inr (Some t)"
    and im: "startsWith (file_mimetype file) ''image/''"
    and pi: "processImage (sharp env) (file_path file) t
               (processedDir @ ''/processed-'' @ new_upload_id env @ ''.''
                  @ (if format t = ''jpeg'' then ''jpg'' else format t)) = Inr (Failure e)"
  shows "snd (uploadSingle env req empty_world)
           = ErrorResponse 500 ''Upload failed'' (Some (''Image processing failed: '' @ e))
     \<and> history (fst (uploadSingle env req empty_world))
           = [new_upload env req file, (new_upload env req file)\<lparr>status := Processing\<rparr>,
              failure_info (''Image processing failed: '' @ e)
                ((new_upload env req file)\<lparr>status := Processing\<rparr>)]
     \<and> storage_calls (fst (uploadSingle env req empty_world)) = []"
proof -
  let ?u0 = "new_upload env req file"
  let ?w1 = "create_upload ?u0 empty_world"
  let ?w2 = "update_upload (\<lambda>u. u\<lparr>status := Processing\<rparr>) ?w1"
  have i: "upload_id ?u0 = new_upload_id env"
    by (simp add: new_upload_def)
  have w1: "row ?w1 = Some ?u0" "history ?w1 = [?u0]" "storage_calls ?w1 = []"
    by (simp_all add: create_upload_def empty_world_def)
  have w2: "row ?w2 = Some (?u0\<lparr>status := Processing\<rparr>)"
    "history ?w2 = [?u0, ?u0\<lparr>status := Processing\<rparr>]" "storage_calls ?w2 = []"
    using update_upload_world [OF w1(1), of "\<lambda>u. u\<lparr>status := Processing\<rparr>"] w1
    by simp_all
  have ps: "process_step env file ?u0 (Some t) ?w1
      = (?w2, Inl (''Image processing failed: '' @ e))"
    using im pi by (simp add: process_step_def Let_def i)
  have tr: "uploadSingle_try env req file empty_world
      = (?w2, Inl (''Image processing failed: '' @ e))"
    using lt ps by (simp add: uploadSingle_try_def Let_def)
  let ?w3 = "update_upload (failure_info (''Image processing failed: '' @ e)) ?w2"
  have w3: "history ?w3 = [?u0, ?u0\<lparr>status := Processing\<rparr>,
              failure_info (''Image processing failed: '' @ e) (?u0\<lparr>status := Processing\<rparr>)]"
     "storage_calls ?w3 = []"
    using update_upload_world [OF w2(1), of "failure_info (''Image processing failed: '' @ e)"] w2
    by simp_all
  have "uploadSingle env req empty_world
      = (if file_path file \<noteq> [] then deleteFile (file_path file) ?w3 else ?w3,
         ErrorResponse 500 ''Upload failed'' (Some (''Image processing failed: '' @ e)))"
    using f tr w2(1) by (simp add: uploadSingle_def Let_def)
  with w3 show ?thesis by (simp add: deleteFile_def)
qed

text \<open>With a library that refuses an extract outside the input, \<open>processImage\<close> fails
  on a crop rectangle that exceeds the image.\<close>

lemma processImage_bad_extract:
  assumes lib: "rejects_bad_extract env"
    and md: "metadata env (Sharp (FromFile p) []) = Inr md"
    and crop: "cropX t = Some x" "cropY t = Some y" "cropWidth t = Some cw"
      "cropHeight t = Some ch" "cw \<noteq> 0" "ch \<noteq> 0"
    and out: "x + cw > md_width md \<or> y + ch > md_height md"
  shows "\<exists>e. processImage env p t outputPath = Inr (Failure e)"
proof (cases "processImage_pipeline env p t")
  case (Inl e)
  then show ?thesis by (simp add: processImage_def processImage_try_def)
next
  case (Inr r)
  then obtain img where r: "r = (md, img)" and
    geo: "applyDimensions env (Sharp (FromFile p) []) t md = Inr img"
    using md by (auto simp add: processImage_pipeline_def Let_def split: sum.splits)
  from geo crop have img: "input img = FromFile p"
    "Extract x y cw ch \<in> set (ops img)"
    by (auto simp add: applyDimensions_def call_def split: sum.splits option.splits)
  from out have "bad_extract (md_width md) (md_height md) (Extract x y cw ch)"
    by auto
  with img(2) have "list_ex (bad_extract (md_width md) (md_height md)) (ops img)"
    unfolding list_ex_iff by blast
  with lib md img(1) obtain e where "toFile env img outputPath = Inl e"
    unfolding rejects_bad_extract_def by metis
  with Inr r show ?thesis by (simp add: processImage_def processImage_try_def)
qed

text \<open>The example inputs, evaluated.\<close>

lemma example_env_rejects: "rejects_bad_extract (example_env w h)"
  by (simp add: rejects_bad_extract_def example_env_def)

lemma example_load_template:
  "load_template (example_upload_env w h t) (example_request (Some ''tpl1'')) = Inr (Some t)"
  "load_template (example_upload_env w h t) (example_request None) = Inr None"
  by (simp_all add: load_template_def example_request_def example_upload_env_def
        getTemplateById_def)

lemma example_request_file:
  "req_file (example_request tid) = Some example_file"
  "startsWith (file_mimetype example_file) ''image/''"
  "file_path example_file = ''uploads/file-1.jpg''"
  by (simp_all add: example_request_def example_file_def startsWith_def)

lemma example_upload_env_simps:
  "sharp (example_upload_env w h t) = example_env w h"
  "new_upload_id (example_upload_env w h t) = ''upl1''"
  "\<forall>p options. uploader_upload (example_upload_env w h t) p options
      = Inr \<lparr>public_id = ''uploads/abc'',
             url = ''https://res.cloudinary.com/demo/uploads/abc.jpg''\<rparr>"
  by (simp_all add: example_upload_env_def)

lemma cropping_template_simps:
  "cropX cropping_template = Some 100" "cropY cropping_template = Some 100"
  "cropWidth cropping_template = Some 5000" "cropHeight cropping_template = Some 5000"
  "format cropping_template = ''jpeg''" "width cropping_template = 1080"
  "height cropping_template = 1080" "fit cropping_template = ''cover''"
  "backgroundColor cropping_template = None"
  by (simp_all add: cropping_template_def plain_template_def)

lemma cropping_run:
  "processImage (example_env 800 600) ''uploads/file-1.jpg'' cropping_template outputPath
     = Inr (Failure ''extract_area: bad extract area'')"
  by (simp add: processImage_def processImage_try_def processImage_pipeline_def
        applyDimensions_def call_def example_env_def cropping_template_simps getSharpFit_def)



section \<open>The pipeline orchestrator\<close>

text \<open>
  Claim C1: \<open>processImage\<close> runs the five stages Geometry, Tone, Frame, Watermark and
  Encode in this order before it writes the output file.

  The source does not: it calls \<open>applyDimensions\<close> and writes the file; the calls of the
  other four stages are commented out. For a template that asks for contrast, a frame,
  a watermark and PNG output, on an input of 800 by 600 pixels, the image
  \<open>processImage\<close> writes carries the resize alone, while the five stages in order give
  a frame canvas with the composited image, the watermark text, the metadata policy and
  the PNG encoder.
\<close>

theorem processImage_runs_geometry_only:
  "processImage_pipeline (example_env 800 600) ''in.jpg'' decorated_template
     = Inr (\<lparr>md_width = 800, md_height = 600, md_format = ''jpeg''\<rparr>,
            Sharp (FromFile ''in.jpg'')
              [Resize \<lparr>resize_width = 1080, resize_height = 1080, resize_fit = ''cover'',
                       withoutEnlargement = False, resize_background = None\<rparr>])
   \<and> map_sum id (ops \<circ> snd)
        (spec_five_stage_pipeline (example_env 800 600) ''in.jpg'' decorated_template)
     = Inr [CompositeImage [255, 216, 255] 35 35,
            CompositeText \<lparr>text_svg_width = 800, text_svg_height = 600,
              text_x = 780, text_y = 580, font_size = 40, fill_opacity = 1 / 2,
              text_anchor = ''end'', dominant_baseline = ''alphabetic'',
              text_content = ''demo''\<rparr>,
            WithMetadata, Png 85 True 9 True]
   \<and> processImage_pipeline (example_env 800 600) ''in.jpg'' decorated_template
     \<noteq> spec_five_stage_pipeline (example_env 800 600) ''in.jpg'' decorated_template"
proof -
  have t: "decorated_template =
     \<lparr>template_id = ''tpl1'', template_name = ''Social Media Square'',
      width = 1080, height = 1080, quality = 85, format = ''png'', fit = ''cover'',
      cropX = None, cropY = None, cropWidth = None, cropHeight = None,
      brightness = None, contrast = Some 50, saturation = None, hue = None,
      blur = None, sharpen = None,
      watermarkEnabled = True, watermarkText = Some ''demo'', watermarkPosition = None,
      watermarkOpacity = None, watermarkSize = None, backgroundColor = None,
      progressive = True, optimizeScans = True, stripMetadata = True,
      isActive = True, isDefault = True,
      boxEnabled = True, boxColor = Null, boxPadding = Val 20, boxBorderWidth = Val 0,
      boxBorderColor = Null, boxBorderRadius = Null, boxShadowEnabled = Val True,
      boxShadowBlur = Val 10, boxShadowOffsetX = Val 5, boxShadowOffsetY = Val 5,
      boxShadowOpacity = Undefined, boxShadowColor = Null\<rparr>"
    by (simp add: decorated_template_def framed_template_def plain_template_def)
  have geo: "applyDimensions (example_env 800 600) (Sharp (FromFile ''in.jpg'') [])
      decorated_template \<lparr>md_width = 800, md_height = 600, md_format = ''jpeg''\<rparr>
    = Inr (Sharp (FromFile ''in.jpg'')
              [Resize \<lparr>resize_width = 1080, resize_height = 1080, resize_fit = ''cover'',
                       withoutEnlargement = False, resize_background = None\<rparr>])"
    by (simp add: t applyDimensions_def call_def example_env_def getSharpFit_def)
  have a: "processImage_pipeline (example_env 800 600) ''in.jpg'' decorated_template
     = Inr (\<lparr>md_width = 800, md_height = 600, md_format = ''jpeg''\<rparr>,
            Sharp (FromFile ''in.jpg'')
              [Resize \<lparr>resize_width = 1080, resize_height = 1080, resize_fit = ''cover'',
                       withoutEnlargement = False, resize_background = None\<rparr>])"
    using geo by (simp add: processImage_pipeline_def Let_def example_env_def)
  have b: "map_sum id (ops \<circ> snd)
        (spec_five_stage_pipeline (example_env 800 600) ''in.jpg'' decorated_template)
     = Inr [CompositeImage [255, 216, 255] 35 35,
            CompositeText \<lparr>text_svg_width = 800, text_svg_height = 600,
              text_x = 780, text_y = 580, font_size = 40, fill_opacity = 1 / 2,
              text_anchor = ''end'', dominant_baseline = ''alphabetic'',
              text_content = ''demo''\<rparr>,
            WithMetadata, Png 85 True 9 True]"
    using geo
    by (simp add: spec_five_stage_pipeline_def Let_def example_env_def t applyFilters_def
          applyBox_def applyBox_try_def applyWatermark_def applyWatermark_try_def
          applyOutputOptions_def toLowerCase_def getWatermarkPosition_def call_def
          createBoxSvg_def)
  have c: "map_sum id (ops \<circ> snd)
        (processImage_pipeline (example_env 800 600) ''in.jpg'' decorated_template)
     \<noteq> map_sum id (ops \<circ> snd)
        (spec_five_stage_pipeline (example_env 800 600) ''in.jpg'' decorated_template)"
    unfolding b by (simp add: a)
  have d: "processImage_pipeline (example_env 800 600) ''in.jpg'' decorated_template
     \<noteq> spec_five_stage_pipeline (example_env 800 600) ''in.jpg'' decorated_template"
  proof
    assume "processImage_pipeline (example_env 800 600) ''in.jpg'' decorated_template
      = spec_five_stage_pipeline (example_env 800 600) ''in.jpg'' decorated_template"
    then have "map_sum id (ops \<circ> snd)
        (processImage_pipeline (example_env 800 600) ''in.jpg'' decorated_template)
      = map_sum id (ops \<circ> snd)
        (spec_five_stage_pipeline (example_env 800 600) ''in.jpg'' decorated_template)"
      by (rule arg_cong)
    with c show False by (rule notE)
  qed
  from a b d show ?thesis by (intro conjI)
qed

text \<open>
  Claim C8: \<open>processImage\<close> never raises an exception past its own boundary. For every
  environment, input path, template and output path the call returns an object: the
  success object with the dimensions, format and size when the \<open>try\<close> block ran
  through, and the failure object with the message of the exception otherwise.
\<close>

theorem processImage_never_throws:
  "\<exists>r. processImage env inputPath t outputPath = Inr r
     \<and> (case r of
          Success d \<Rightarrow> processImage_try env inputPath t outputPath = Inr d
        | Failure e \<Rightarrow> processImage_try env inputPath t outputPath = Inl e)"
  by (cases "processImage_try env inputPath t outputPath") (simp_all add: processImage_def)

section \<open>The stages\<close>







section \<open>The upload lifecycle\<close>





text \<open>
  Claim C4, as stated: a manual crop rectangle that exceeds the image is rejected with a
  validation error. For the rectangle (100, 100, 5000, 5000) on an image of 800 by 600
  pixels \<open>applyDimensions\<close> returns normally, with the extract queued, and the request is
  answered with status 500 and the error of the library.
\<close>

theorem crop_not_validated_counterexample:
  "applyDimensions (example_env 800 600) (Sharp (FromFile ''uploads/file-1.jpg'') [])
      cropping_template \<lparr>md_width = 800, md_height = 600, md_format = ''jpeg''\<rparr>
     = Inr (Sharp (FromFile ''uploads/file-1.jpg'')
          [Extract 100 100 5000 5000,
           Resize \<lparr>resize_width = 1080, resize_height = 1080, resize_fit = ''cover'',
                    withoutEnlargement = False, resize_background = None\<rparr>])
   \<and> snd (uploadSingle (example_upload_env 800 600 cropping_template)
        (example_request (Some ''tpl1'')) empty_world)
     = ErrorResponse 500 ''Upload failed''
         (Some ''Image processing failed: extract_area: bad extract area'')"
proof -
  have a: "applyDimensions (example_env 800 600) (Sharp (FromFile ''uploads/file-1.jpg'') [])
      cropping_template \<lparr>md_width = 800, md_height = 600, md_format = ''jpeg''\<rparr>
     = Inr (Sharp (FromFile ''uploads/file-1.jpg'')
          [Extract 100 100 5000 5000,
           Resize \<lparr>resize_width = 1080, resize_height = 1080, resize_fit = ''cover'',
                    withoutEnlargement = False, resize_background = None\<rparr>])"
    by (simp add: applyDimensions_def call_def example_env_def cropping_template_simps
          getSharpFit_def)
  have "processImage (sharp (example_upload_env 800 600 cropping_template))
          (file_path example_file) cropping_template
          (processedDir @ ''/processed-''
             @ new_upload_id (example_upload_env 800 600 cropping_template) @ ''.''
             @ (if format cropping_template = ''jpeg'' then ''jpg''
                else format cropping_template))
     = Inr (Failure ''extract_area: bad extract area'')"
    by (simp only: example_upload_env_simps example_request_file cropping_run)
  from uploadSingle_processing_failed
    [OF example_request_file(1) example_load_template(1) example_request_file(2) this]
  have "snd (uploadSingle (example_upload_env 800 600 cropping_template)
        (example_request (Some ''tpl1'')) empty_world)
     = ErrorResponse 500 ''Upload failed''
         (Some ''Image processing failed: extract_area: bad extract area'')"
    by simp
  with a show ?thesis by (rule conjI)
qed

text \<open>
  Claim C4, amended: the Geometry stage does not compare the crop rectangle with the
  image. When the library refuses an extract outside its input, an image upload whose
  template has such a rectangle fails while the pipeline is run: the answer is status
  500 with the message \<open>Image processing failed: ...\<close>, the row goes from \<open>pending\<close>
  over \<open>processing\<close> to \<open>failed\<close> with this message, no state of the row has a
  storage identifier, and the storage collaborator is not called.
\<close>

theorem out_of_bounds_crop_fails_upload:
  assumes "req_file req = Some file"
    and "startsWith (file_mimetype file) ''image/''"
    and "load_template env req = Inr (Some t)"
    and "metadata (sharp env) (Sharp (FromFile (file_path file)) []) = Inr md"
    and "cropX t = Some x" "cropY t = Some y" "cropWidth t = Some cw" "cropHeight t = Some ch"
    and "cw \<noteq> 0" "ch \<noteq> 0"
    and "x + cw > md_width md \<or> y + ch > md_height md"
    and "rejects_bad_extract (sharp env)"
  shows "\<exists>e. snd (uploadSingle env req empty_world)
           = ErrorResponse 500 ''Upload failed'' (Some (''Image processing failed: '' @ e))
     \<and> map status (history (fst (uploadSingle env req empty_world)))
           = [Pending, Processing, Failed]
     \<and> errorMessage (last (history (fst (uploadSingle env req empty_world))))
           = Some (''Image processing failed: '' @ e)
     \<and> list_all (\<lambda>u. cloudinaryId u = None) (history (fst (uploadSingle env req empty_world)))
     \<and> storage_calls (fst (uploadSingle env req empty_world)) = []"
proof -
  from processImage_bad_extract [OF assms(12) assms(4-11)]
  obtain e where "processImage (sharp env) (file_path file) t
               (processedDir @ ''/processed-'' @ new_upload_id env @ ''.''
                  @ (if format t = ''jpeg'' then ''jpg'' else format t)) = Inr (Failure e)"
    by blast
  from uploadSingle_processing_failed [OF assms(1) assms(3) assms(2) this]
  show ?thesis
    by (intro exI [of _ e]) (simp add: new_upload_def failure_info_def)
qed

text \<open>The scenario of the specification.\<close>

theorem out_of_bounds_crop_fails_upload_witness:
  "req_file (example_request (Some ''tpl1'')) = Some example_file
   \<and> startsWith (file_mimetype example_file) ''image/''
   \<and> load_template (example_upload_env 800 600 cropping_template)
        (example_request (Some ''tpl1'')) = Inr (Some cropping_template)
   \<and> rejects_bad_extract (sharp (example_upload_env 800 600 cropping_template))
   \<and> (\<exists>e. snd (uploadSingle (example_upload_env 800 600 cropping_template)
               (example_request (Some ''tpl1'')) empty_world)
           = ErrorResponse 500 ''Upload failed'' (Some (''Image processing failed: '' @ e))
     \<and> map status (history (fst (uploadSingle (example_upload_env 800 600 cropping_template)
               (example_request (Some ''tpl1'')) empty_world)))
           = [Pending, Processing, Failed]
     \<and> storage_calls (fst (uploadSingle (example_upload_env 800 600 cropping_template)
               (example_request (Some ''tpl1'')) empty_world)) = [])"
proof -
  let ?env = "example_upload_env 800 600 cropping_template"
  have md: "metadata (sharp ?env) (Sharp (FromFile (file_path example_file)) [])
      = Inr \<lparr>md_width = 800, md_height = 600, md_format = ''jpeg''\<rparr>"
    by (simp add: example_upload_env_simps example_env_def)
  have lib: "rejects_bad_extract (sharp ?env)"
    by (simp add: example_upload_env_simps example_env_rejects)
  have out: "100 + 5000 > md_width \<lparr>md_width = 800, md_height = 600, md_format = ''jpeg''\<rparr>
      \<or> 100 + 5000 > md_height \<lparr>md_width = 800, md_height = 600, md_format = ''jpeg''\<rparr>"
    by simp
  have nz: "(5000::int) \<noteq> 0" by simp
  from out_of_bounds_crop_fails_upload
    [OF example_request_file(1) example_request_file(2) example_load_template(1) md
        cropping_template_simps(1-4) nz nz out lib]
  obtain e where e:
    "snd (uploadSingle ?env (example_request (Some ''tpl1'')) empty_world)
           = ErrorResponse 500 ''Upload failed'' (Some (''Image processing failed: '' @ e))
     \<and> map status (history (fst (uploadSingle ?env (example_request (Some ''tpl1''))
           empty_world))) = [Pending, Processing, Failed]
     \<and> errorMessage (last (history (fst (uploadSingle ?env (example_request (Some ''tpl1''))
           empty_world)))) = Some (''Image processing failed: '' @ e)
     \<and> list_all (\<lambda>u. cloudinaryId u = None)
          (history (fst (uploadSingle ?env (example_request (Some ''tpl1'')) empty_world)))
     \<and> storage_calls (fst (uploadSingle ?env (example_request (Some ''tpl1''))
           empty_world)) = []" ..
  show ?thesis
  proof (intro conjI exI [of _ e])
    show "req_file (example_request (Some ''tpl1'')) = Some example_file"
      by (rule example_request_file(1))
    show "startsWith (file_mimetype example_file) ''image/''"
      by (rule example_request_file(2))
    show "load_template ?env (example_request (Some ''tpl1'')) = Inr (Some cropping_template)"
      by (rule example_load_template(1))
    show "rejects_bad_extract (sharp ?env)" by (rule lib)
  qed (simp_all only: e)
qed

section \<open>The template service\<close>

text \<open>
  Claim C9: after a successful \<open>setDefaultTemplate\<close> exactly one template is the
  default, the requested one. The call clears the flag on every row that has it, sets
  \<open>isDefault\<close> and \<open>isActive\<close> on the requested row and returns this row; the other
  rows change in nothing but the cleared flag.
\<close>

theorem setDefaultTemplate_single_default:
  assumes "setDefaultTemplate db i = (db', Success t)"
  shows "{k. \<exists>t'. template_rows db' k = Some t' \<and> isDefault t'} = {i}
     \<and> template_rows db' i = Some t \<and> isDefault t \<and> isActive t
     \<and> (\<forall>k. k \<noteq> i \<longrightarrow> template_rows db' k
           = map_option (\<lambda>t. if isDefault t then t\<lparr>isDefault := False\<rparr> else t)
               (template_rows db k))
     \<and> upload_rows db' = upload_rows db"
proof -
  define clear where "clear = (\<lambda>t::template. if isDefault t then t\<lparr>isDefault := False\<rparr> else t)"
  define rows1 where "rows1 = (\<lambda>k. map_option clear (template_rows db k))"
  have run: "setDefaultTemplate db i =
      (case rows1 i of
         None \<Rightarrow> (db\<lparr>template_rows := rows1\<rparr>, Failure P2025)
       | Some t0 \<Rightarrow> (db\<lparr>template_rows := rows1(i \<mapsto> t0\<lparr>isDefault := True, isActive := True\<rparr>)\<rparr>,
                      Success (t0\<lparr>isDefault := True, isActive := True\<rparr>)))"
    by (cases "template_rows db i")
       (simp_all add: setDefaultTemplate_def rows1_def clear_def Let_def)
  obtain t0 where t0: "rows1 i = Some t0"
    using assms unfolding run by (cases "rows1 i") simp_all
  from assms have t: "t = t0\<lparr>isDefault := True, isActive := True\<rparr>"
    and db': "db' = db\<lparr>template_rows := rows1(i \<mapsto> t)\<rparr>"
    unfolding run t0 by auto
  have flags: "isDefault t" "isActive t"
    unfolding t by simp_all
  have clear: "\<not> isDefault (clear t')" for t'
    unfolding clear_def by simp
  have cleared: "\<not> isDefault t'" if "rows1 k = Some t'" for k t'
    using that clear unfolding rows1_def by (cases "template_rows db k") auto
  have rows': "template_rows db' = rows1(i \<mapsto> t)"
    unfolding db' by simp
  have "{k. \<exists>t'. template_rows db' k = Some t' \<and> isDefault t'} = {i}"
  proof (intro equalityI subsetI)
    fix k assume "k \<in> {k. \<exists>t'. template_rows db' k = Some t' \<and> isDefault t'}"
    then obtain t' where k: "(rows1(i \<mapsto> t)) k = Some t'" "isDefault t'"
      unfolding rows' by blast
    show "k \<in> {i}"
    proof (rule ccontr)
      assume "k \<notin> {i}"
      with k(1) have "rows1 k = Some t'" by simp
      with cleared k(2) show False by blast
    qed
  next
    fix k assume "k \<in> {i}"
    then have "template_rows db' k = Some t" unfolding rows' by simp
    with flags(1) show "k \<in> {k. \<exists>t'. template_rows db' k = Some t' \<and> isDefault t'}"
      by blast
  qed
  moreover have "template_rows db' i = Some t"
    unfolding rows' by simp
  moreover have "\<forall>k. k \<noteq> i \<longrightarrow> template_rows db' k
           = map_option (\<lambda>t. if isDefault t then t\<lparr>isDefault := False\<rparr> else t)
               (template_rows db k)"
    unfolding rows' by (simp add: rows1_def clear_def)
  moreover have "upload_rows db' = upload_rows db"
    unfolding db' by simp
  ultimately show ?thesis using flags by blast
qed

text \<open>A store where the first of two templates is the default; the second is requested.\<close>

theorem setDefaultTemplate_single_default_witness:
  "(\<exists>t. snd (setDefaultTemplate example_database ''tpl2'') = Success t)
   \<and> {k. \<exists>t'. template_rows (fst (setDefaultTemplate example_database ''tpl2'')) k = Some t'
            \<and> isDefault t'} = {''tpl2''}"
proof -
  have "\<exists>t0. template_rows example_database ''tpl2'' = Some t0"
    by (simp add: example_database_def)
  then obtain db' t where run: "setDefaultTemplate example_database ''tpl2'' = (db', Success t)"
    by (auto simp add: setDefaultTemplate_def Let_def)
  from setDefaultTemplate_single_default [OF run] run show ?thesis by simp
qed

text \<open>
  Claim C10: for a template with at least one upload \<open>deleteTemplate\<close> returns the failure
  that names the number of uploads and leaves the store as it is; the call succeeds, or
  changes the templates, only for a template that exists and has no upload.
\<close>

theorem deleteTemplate_refuses_when_in_use:
  "(0 < length (filter (\<lambda>u. templateId u = Some i) (upload_rows db)) \<longrightarrow>
      deleteTemplate db i
        = (db, Failure (''Cannot delete template. It has ''
                          @ show_nat (length (filter (\<lambda>u. templateId u = Some i)
                                                (upload_rows db)))
                          @ '' associated uploads.'')))
   \<and> (snd (deleteTemplate db i) = Success ''Template deleted successfully'' \<longrightarrow>
        filter (\<lambda>u. templateId u = Some i) (upload_rows db) = []
        \<and> template_rows db i \<noteq> None)
   \<and> (template_rows (fst (deleteTemplate db i)) \<noteq> template_rows db \<longrightarrow>
        filter (\<lambda>u. templateId u = Some i) (upload_rows db) = []
        \<and> fst (deleteTemplate db i) = db\<lparr>template_rows := (template_rows db)(i := None)\<rparr>)"
proof -
  define n where "n = length (filter (\<lambda>u. templateId u = Some i) (upload_rows db))"
  have run: "deleteTemplate db i =
     (if n > 0
      then (db, Failure (''Cannot delete template. It has '' @ show_nat n
                           @ '' associated uploads.''))
      else (case template_rows db i of
              None \<Rightarrow> (db, Failure P2025)
            | Some t \<Rightarrow> (db\<lparr>template_rows := (template_rows db)(i := None)\<rparr>,
                          Success ''Template deleted successfully'')))"
    unfolding deleteTemplate_def n_def Let_def ..
  have n0: "filter (\<lambda>u. templateId u = Some i) (upload_rows db) = []" if "\<not> n > 0"
    using that unfolding n_def by simp
  show ?thesis
  proof (cases "n > 0")
    case True
    then show ?thesis unfolding run n_def [symmetric] by simp
  next
    case False
    note n0 [OF False]
    then show ?thesis
      unfolding run n_def [symmetric] using False
      by (cases "template_rows db i") simp_all
  qed
qed

text \<open>A template with one upload is kept, one without uploads is deleted.\<close>

theorem deleteTemplate_refuses_when_in_use_witness:
  "0 < length (filter (\<lambda>u. templateId u = Some ''tpl2'') (upload_rows example_database))
   \<and> deleteTemplate example_database ''tpl2''
        = (example_database,
           Failure ''Cannot delete template. It has 1 associated uploads.'')
   \<and> snd (deleteTemplate example_database ''tpl1'') = Success ''Template deleted successfully''
   \<and> filter (\<lambda>u. templateId u = Some ''tpl1'') (upload_rows example_database) = []"
proof -
  have n: "length (filter (\<lambda>u. templateId u = Some ''tpl2'') (upload_rows example_database)) = 1"
    by (simp add: example_database_def)
  have s: "show_nat 1 = ''1''"
    by (simp add: show_nat.simps)
  have d: "snd (deleteTemplate example_database ''tpl1'') = Success ''Template deleted successfully''"
    by (simp add: deleteTemplate_def example_database_def Let_def)
  from deleteTemplate_refuses_when_in_use [of "''tpl2''" example_database] n s
  have a: "deleteTemplate example_database ''tpl2''
        = (example_database,
           Failure ''Cannot delete template. It has 1 associated uploads.'')"
    by simp
  from deleteTemplate_refuses_when_in_use [of "''tpl1''" example_database] d
  have b: "filter (\<lambda>u. templateId u = Some ''tpl1'') (upload_rows example_database) = []"
    by blast
  from n a d b show ?thesis by simp
qed

end
